theory Spec2Isabelle
  imports Complex_Main "HOL-Library.Multiset" "HOL-Library.Log_Nat"
begin

section \<open>The deployment dashboard (assets/js/dashboard.js)\<close>

text \<open>
  A shallow embedding of the class \<^verbatim>\<open>DeploymentDashboard\<close>. The methods keep their names.
  Every method that touches the page is a function from the dashboard state to an optional
  exception and the state it leaves behind, so that the writes done before a throw stay
  visible, as they do in the browser.
\<close>

subsection \<open>Data model\<close>

text \<open>
  One entry of \<^verbatim>\<open>data.deployments\<close>. The field \<open>timestamp\<close> holds the time value of
  \<^verbatim>\<open>new Date(d.timestamp)\<close>, in milliseconds since the epoch: the source parses the string
  at every use and only ever works with that number.
\<close>

record deployment =
  timestamp :: int
  status :: string
  commit :: string
  user :: string
  workflow_url :: string

text \<open>
  What the browser provides: the clock (\<^verbatim>\<open>new Date()\<close>, read as one instant for a whole run),
  the local time zone, the locale's formatting functions, and whether the global \<^verbatim>\<open>Chart\<close>
  of the charting library is defined. The zone is given by the two conversions of the
  language standard: \<open>localTime\<close> is \<^verbatim>\<open>LocalTime(t)\<close>, the wall-clock time value of an instant
  (the instant plus the offset in force at it, daylight saving included), and \<open>utcOf\<close> is
  \<^verbatim>\<open>UTC(t)\<close>, the instant at which the zone shows a given wall-clock time value.
\<close>

record js_env =
  now :: int
  localTime :: "int \<Rightarrow> int"
  utcOf :: "int \<Rightarrow> int"
  toLocaleDateString :: "int \<Rightarrow> string"
  toLocaleTimeString :: "int \<Rightarrow> string"
  toLocaleString :: "int \<Rightarrow> string"
  chartLibrary :: bool

datatype js_error = Error string | TypeError string | ReferenceError string | SyntaxError string

fun message :: "js_error \<Rightarrow> string" where
  "message (Error m) = m"
| "message (TypeError m) = m"
| "message (ReferenceError m) = m"
| "message (SyntaxError m) = m"

text \<open>The configuration handed to \<^verbatim>\<open>new Chart(ctx, ...)\<close>: type, labels and the one data set.\<close>

record chart =
  chart_type :: string
  chart_labels :: "string list"
  chart_data :: "nat list"

text \<open>
  The object's fields \<^verbatim>\<open>deployments\<close> and \<^verbatim>\<open>charts\<close>, and the parts of the page it writes:
  \<open>document\<close> maps an element id to its text (\<open>None\<close>: \<^verbatim>\<open>getElementById\<close> returns null),
  \<open>console\<close> collects the logged lines and \<open>intervals\<close> the periods armed by \<^verbatim>\<open>setInterval\<close>.
\<close>

record dashboard =
  deployments :: "deployment list"
  charts_trend :: "chart option"
  charts_status :: "chart option"
  document :: "string \<rightharpoonup> string"
  console :: "string list"
  intervals :: "nat list"

type_synonym action = "dashboard \<Rightarrow> js_error option \<times> dashboard"

text \<open>Statement sequencing, and \<^verbatim>\<open>try { body } catch (error) { handler }\<close>.\<close>

definition andThen :: "action \<Rightarrow> action \<Rightarrow> action" where
  "andThen f g s = (case f s of (None, s') \<Rightarrow> g s' | (Some e, s') \<Rightarrow> (Some e, s'))"

definition tryCatch :: "action \<Rightarrow> (js_error \<Rightarrow> action) \<Rightarrow> action" where
  "tryCatch body handler s =
     (case body s of (None, s') \<Rightarrow> (None, s') | (Some e, s') \<Rightarrow> handler e s')"

text \<open>
  \<^verbatim>\<open>document.getElementById(id).textContent = txt\<close> and the same for \<^verbatim>\<open>innerHTML\<close>: a
  TypeError when the element is missing (the message is V8's wording).
\<close>

definition setTextContent :: "string \<Rightarrow> string \<Rightarrow> action" where
  "setTextContent ident txt s =
     (case document s ident of
        None \<Rightarrow> (Some (TypeError ''Cannot set properties of null (setting 'textContent')''), s)
      | Some _ \<Rightarrow> (None, s\<lparr>document := (document s)(ident \<mapsto> txt)\<rparr>))"

definition setInnerHTML :: "string \<Rightarrow> string \<Rightarrow> action" where
  "setInnerHTML ident html s =
     (case document s ident of
        None \<Rightarrow> (Some (TypeError ''Cannot set properties of null (setting 'innerHTML')''), s)
      | Some _ \<Rightarrow> (None, s\<lparr>document := (document s)(ident \<mapsto> html)\<rparr>))"

definition console_warn :: "string \<Rightarrow> action" where
  "console_warn line s = (None, s\<lparr>console := console s @ [line]\<rparr>)"

definition console_error :: "string \<Rightarrow> js_error \<Rightarrow> action" where
  "console_error line e s = (None, s\<lparr>console := console s @ [line @ '' '' @ message e]\<rparr>)"

subsection \<open>Numbers\<close>

text \<open>
  A JavaScript number is an IEEE 754 double. Finite doubles are rationals, and each
  arithmetic operation returns the double nearest to the exact result, ties to the even
  significand. \<open>ieee_round\<close> is that rounding for a 53-bit significand; exponent limits
  are left out, the values of this program lying between \<open>2\<^sup>-\<^sup>3\<^sup>2\<close> and 100.
\<close>

definition ilog2 :: "rat \<Rightarrow> int" where
  "ilog2 q = (if 1 \<le> q then bitlen \<lfloor>q\<rfloor> - 1 else - bitlen (\<lceil>1 / q\<rceil> - 1))"

definition roundTiesToEven :: "rat \<Rightarrow> int" where
  "roundTiesToEven x =
     (let n = \<lfloor>x\<rfloor>; r = x - of_int n
      in if r < 1 / 2 then n else if 1 / 2 < r then n + 1 else if even n then n else n + 1)"

definition ieee_round :: "rat \<Rightarrow> rat" where
  "ieee_round q =
     (if q \<le> 0 then 0
      else let ulp = 2 powi (ilog2 q - 52) in of_int (roundTiesToEven (q / ulp)) * ulp)"

definition js_div :: "rat \<Rightarrow> rat \<Rightarrow> rat" where
  "js_div x y = ieee_round (x / y)"

definition js_mul :: "rat \<Rightarrow> rat \<Rightarrow> rat" where
  "js_mul x y = ieee_round (x * y)"

text \<open>\<^verbatim>\<open>Math.round\<close>: the nearest integer, a tie going up.\<close>

definition Math_round :: "rat \<Rightarrow> int" where
  "Math_round x = \<lfloor>x + 1 / 2\<rfloor>"

text \<open>The decimal text of an integer, as string interpolation and \<^verbatim>\<open>textContent\<close> produce it.\<close>

fun showNat :: "nat \<Rightarrow> string" where
  "showNat n =
     (if n < 10 then [''0123456789'' ! n]
      else showNat (n div 10) @ [''0123456789'' ! (n mod 10)])"

declare showNat.simps [simp del]

definition Number_toString :: "int \<Rightarrow> string" where
  "Number_toString i = (if i < 0 then ''-'' @ showNat (nat (- i)) else showNat (nat i))"

subsection \<open>Strings and sets\<close>

text \<open>
  \<^verbatim>\<open>String.prototype.substring(start, end)\<close>: both indices are clamped to the string and
  swapped when they come in the wrong order.
\<close>

definition substring :: "string \<Rightarrow> int \<Rightarrow> int \<Rightarrow> string" where
  "substring s start fin =
     (let len = int (length s);
          a = min (max start 0) len;
          b = min (max fin 0) len;
          lo = min a b;
          hi = max a b
      in take (nat (hi - lo)) (drop (nat lo) s))"

text \<open>\<^verbatim>\<open>new Set(iterable)\<close>: the values in the order of first insertion, each once.\<close>

definition Set_add :: "'a list \<Rightarrow> 'a \<Rightarrow> 'a list" where
  "Set_add s x = (if x \<in> set s then s else s @ [x])"

definition new_Set :: "'a list \<Rightarrow> 'a list" where
  "new_Set xs = foldl Set_add [] xs"

definition Set_size :: "'a list \<Rightarrow> nat" where
  "Set_size s = length s"

subsection \<open>loadDeployments\<close>

text \<open>
  What \<^verbatim>\<open>fetch('data/deployments.json')\<close> and \<^verbatim>\<open>response.json()\<close> can give: the request
  fails, or a response arrives with its \<^verbatim>\<open>ok\<close> flag and a body that is not JSON, or a
  document whose field \<^verbatim>\<open>deployments\<close> is absent or falsy (\<open>None\<close>, replaced by
  \<^verbatim>\<open>[]\<close> through \<^verbatim>\<open>||\<close>) or a list of records.
\<close>

datatype json_body = MalformedJSON | Document "deployment list option"

datatype fetch_result = NetworkFailure | Response bool json_body

text \<open>The body of the \<^verbatim>\<open>try\<close> block: the value assigned to \<^verbatim>\<open>this.deployments\<close>, or the throw.\<close>

fun loadDeployments_try :: "fetch_result \<Rightarrow> js_error + deployment list" where
  "loadDeployments_try NetworkFailure = Inl (TypeError ''Failed to fetch'')"
| "loadDeployments_try (Response ok body) =
     (if \<not> ok then Inl (Error ''Failed to load deployments data'')
      else case body of
             MalformedJSON \<Rightarrow> Inl (SyntaxError ''Unexpected token in JSON'')
           | Document None \<Rightarrow> Inr []
           | Document (Some ds) \<Rightarrow> Inr ds)"

definition loadDeployments :: "fetch_result \<Rightarrow> action" where
  "loadDeployments fetched s =
     (case loadDeployments_try fetched of
        Inr ds \<Rightarrow> (None, s\<lparr>deployments := ds\<rparr>)
      | Inl e \<Rightarrow>
          andThen (console_warn ''No deployment data found, using empty dataset'')
            (\<lambda>s'. (None, s'\<lparr>deployments := []\<rparr>)) s)"

subsection \<open>updateStats\<close>

definition totalDeployments :: "deployment list \<Rightarrow> nat" where
  "totalDeployments ds = length ds"

definition successfulDeployments :: "deployment list \<Rightarrow> nat" where
  "successfulDeployments ds = length (filter (\<lambda>d. status d = ''success'') ds)"

definition successRate :: "deployment list \<Rightarrow> int" where
  "successRate ds =
     (if totalDeployments ds > 0
      then Math_round
             (js_mul (js_div (of_nat (successfulDeployments ds)) (of_nat (totalDeployments ds))) 100)
      else 0)"

definition uniqueDeployers :: "deployment list \<Rightarrow> nat" where
  "uniqueDeployers ds = Set_size (new_Set (map user ds))"

text \<open>
  \<^verbatim>\<open>Math.floor((now - date) / 3600000)\<close>: both times are whole milliseconds within the
  range of \<^verbatim>\<open>Date\<close>, where the double quotient has the floor of the exact quotient, so
  the model divides integers.
\<close>

definition formatTimeAgo :: "js_env \<Rightarrow> int \<Rightarrow> string" where
  "formatTimeAgo env date =
     (let diffInHours = (now env - date) div (1000 * 60 * 60)
      in if diffInHours < 1 then ''Less than an hour ago''
         else if diffInHours < 24
         then Number_toString diffInHours @ '' hour'' @ (if diffInHours > 1 then ''s'' else '''')
              @ '' ago''
         else let diffInDays = diffInHours div 24
              in Number_toString diffInDays @ '' day'' @ (if diffInDays > 1 then ''s'' else '''')
                 @ '' ago'')"

definition lastDeployment :: "js_env \<Rightarrow> deployment list \<Rightarrow> string" where
  "lastDeployment env ds =
     (case ds of [] \<Rightarrow> ''Never'' | d # _ \<Rightarrow> formatTimeAgo env (timestamp d))"

definition updateStats :: "js_env \<Rightarrow> action" where
  "updateStats env s =
     (let ds = deployments s
      in andThen (setTextContent ''totalDeployments'' (showNat (totalDeployments ds)))
        (andThen (setTextContent ''successRate'' (Number_toString (successRate ds) @ ''%''))
        (andThen (setTextContent ''lastDeployment'' (lastDeployment env ds))
                 (setTextContent ''activeDeployers'' (showNat (uniqueDeployers ds))))) s)"

subsection \<open>createTrendChart\<close>

definition msPerDay :: int where
  "msPerDay = 24 * 60 * 60 * 1000"

text \<open>
  The local calendar day of an instant, counted from the epoch: \<^verbatim>\<open>Day(LocalTime(t))\<close>, from
  which \<^verbatim>\<open>getDate\<close> and \<^verbatim>\<open>toDateString\<close> read the date.
\<close>

definition localDay :: "js_env \<Rightarrow> int \<Rightarrow> int" where
  "localDay env t = localTime env t div msPerDay"

text \<open>
  \<^verbatim>\<open>toDateString()\<close> prints the weekday, month, day and year of the local calendar day and
  nothing else; the model uses the number of that day as the key.
\<close>

definition toDateString :: "js_env \<Rightarrow> int \<Rightarrow> int" where
  "toDateString env t = localDay env t"

text \<open>
  \<^verbatim>\<open>d = new Date(); d.setDate(d.getDate() - i)\<close>. \<^verbatim>\<open>setDate\<close> works on the wall clock: it
  takes the local time value of the date, replaces the day of the month, which moves the
  value back by \<open>i\<close> whole days and keeps the time within the day, and converts the result
  back to an instant with \<^verbatim>\<open>UTC\<close>. Across a change of the offset this is not \<open>i\<close> times 24
  hours before now.
\<close>

definition daysAgo :: "js_env \<Rightarrow> nat \<Rightarrow> int" where
  "daysAgo env i = utcOf env (localTime env (now env) - int i * msPerDay)"

definition thirtyDaysAgo :: "js_env \<Rightarrow> int" where
  "thirtyDaysAgo env = daysAgo env 30"

definition recentDeployments :: "js_env \<Rightarrow> deployment list \<Rightarrow> deployment list" where
  "recentDeployments env ds = filter (\<lambda>d. timestamp d \<ge> thirtyDaysAgo env) ds"

text \<open>The body of the \<^verbatim>\<open>forEach\<close>: start a missing day at 0, then count the record.\<close>

definition countDate :: "js_env \<Rightarrow> deployment \<Rightarrow> (int \<rightharpoonup> nat) \<Rightarrow> (int \<rightharpoonup> nat)" where
  "countDate env d m =
     (let date = toDateString env (timestamp d)
      in m(date \<mapsto> (case m date of None \<Rightarrow> 0 | Some c \<Rightarrow> c) + 1))"

definition deploymentsByDate :: "js_env \<Rightarrow> deployment list \<Rightarrow> (int \<rightharpoonup> nat)" where
  "deploymentsByDate env ds = fold (countDate env) (recentDeployments env ds) Map.empty"

text \<open>The loop \<^verbatim>\<open>for (let i = 29; i >= 0; i--)\<close> visits 29, 28, ..., 0.\<close>

definition trendIndices :: "nat list" where
  "trendIndices = rev [0..<30]"

definition trendLabels :: "js_env \<Rightarrow> string list" where
  "trendLabels env = map (\<lambda>i. toLocaleDateString env (daysAgo env i)) trendIndices"

definition trendData :: "js_env \<Rightarrow> deployment list \<Rightarrow> nat list" where
  "trendData env ds =
     map (\<lambda>i. case deploymentsByDate env ds (toDateString env (daysAgo env i)) of
                 None \<Rightarrow> 0 | Some c \<Rightarrow> c)
         trendIndices"

definition newChart :: "js_env \<Rightarrow> chart \<Rightarrow> js_error + chart" where
  "newChart env cfg =
     (if chartLibrary env then Inr cfg else Inl (ReferenceError ''Chart is not defined''))"

definition getContext :: "string \<Rightarrow> action" where
  "getContext ident s =
     (case document s ident of
        None \<Rightarrow> (Some (TypeError ''Cannot read properties of null (reading 'getContext')''), s)
      | Some _ \<Rightarrow> (None, s))"

definition createTrendChart :: "js_env \<Rightarrow> action" where
  "createTrendChart env =
     andThen (getContext ''deploymentTrendChart'')
       (\<lambda>s. case newChart env \<lparr>chart_type = ''line'', chart_labels = trendLabels env,
                                chart_data = trendData env (deployments s)\<rparr> of
               Inl e \<Rightarrow> (Some e, s)
             | Inr c \<Rightarrow> (None, s\<lparr>charts_trend := Some c\<rparr>))"

subsection \<open>createStatusChart\<close>

definition statusCounts :: "deployment list \<Rightarrow> nat \<times> nat \<times> nat" where
  "statusCounts ds =
     (length (filter (\<lambda>d. status d = ''success'') ds),
      length (filter (\<lambda>d. status d = ''failure'') ds),
      length (filter (\<lambda>d. status d = ''cancelled'') ds))"

definition createStatusChart :: "js_env \<Rightarrow> action" where
  "createStatusChart env =
     andThen (getContext ''statusDistributionChart'')
       (\<lambda>s. case statusCounts (deployments s) of
               (success, failure, cancelled) \<Rightarrow>
                 (case newChart env \<lparr>chart_type = ''doughnut'',
                                      chart_labels = [''Success'', ''Failure'', ''Cancelled''],
                                      chart_data = [success, failure, cancelled]\<rparr> of
                    Inl e \<Rightarrow> (Some e, s)
                  | Inr c \<Rightarrow> (None, s\<lparr>charts_status := Some c\<rparr>)))"

definition createCharts :: "js_env \<Rightarrow> action" where
  "createCharts env = andThen (createTrendChart env) (createStatusChart env)"

subsection \<open>updateTable\<close>

definition formatDate :: "js_env \<Rightarrow> int \<Rightarrow> string" where
  "formatDate env t = toLocaleDateString env t @ '' '' @ toLocaleTimeString env t"

text \<open>The template literal of one row, with its five interpolations.\<close>

definition rowTemplate :: "string \<Rightarrow> string \<Rightarrow> string \<Rightarrow> string \<Rightarrow> string \<Rightarrow> string" where
  \<open>rowTemplate date st hash usr url =
     ''\<newline>            <tr>\<newline>                <td>'' @ date
     @ ''</td>\<newline>                <td><span class="status-badge status-'' @ st @ ''">'' @ st
     @ ''</span></td>\<newline>                <td><code class="commit-hash">'' @ hash
     @ ''</code></td>\<newline>                <td>'' @ usr
     @ ''</td>\<newline>                <td><a href="'' @ url
     @ ''" class="workflow-link" target="_blank">View</a></td>\<newline>            </tr>\<newline>        ''\<close>

definition tableRow :: "js_env \<Rightarrow> deployment \<Rightarrow> string" where
  "tableRow env d =
     rowTemplate (formatDate env (timestamp d)) (status d) (substring (commit d) 0 7) (user d)
       (workflow_url d)"

definition noDataRow :: string where
  \<open>noDataRow = ''<tr><td colspan="5" class="loading">No deployment data available</td></tr>''\<close>

definition updateTable :: "js_env \<Rightarrow> action" where
  "updateTable env s =
     (if length (deployments s) = 0 then setInnerHTML ''deploymentsTableBody'' noDataRow s
      else setInnerHTML ''deploymentsTableBody''
             (concat (map (tableRow env) (take 20 (deployments s)))) s)"

subsection \<open>init\<close>

definition updateLastUpdated :: "js_env \<Rightarrow> action" where
  "updateLastUpdated env = setTextContent ''lastUpdated'' (toLocaleString env (now env))"

definition showError :: "string \<Rightarrow> action" where
  \<open>showError msg =
     setInnerHTML ''deploymentsTableBody''
       (''<tr><td colspan="5" class="loading">Error: '' @ msg @ ''</td></tr>'')\<close>

definition setInterval :: "nat \<Rightarrow> action" where
  "setInterval period s = (None, s\<lparr>intervals := intervals s @ [period]\<rparr>)"

text \<open>The statements of the \<^verbatim>\<open>try\<close> block of \<^verbatim>\<open>init\<close>, in order.\<close>

definition init_try :: "js_env \<Rightarrow> fetch_result \<Rightarrow> action" where
  "init_try env fetched =
     andThen (loadDeployments fetched)
    (andThen (updateStats env)
    (andThen (createCharts env)
    (andThen (updateTable env)
    (andThen (updateLastUpdated env)
             (setInterval 300000)))))"

definition init :: "js_env \<Rightarrow> fetch_result \<Rightarrow> action" where
  "init env fetched =
     tryCatch (init_try env fetched)
       (\<lambda>error. andThen (console_error ''Failed to initialize dashboard:'' error)
                   (showError ''Failed to load deployment data''))"

text \<open>The constructor, run on a page given by its elements.\<close>

definition constructor :: "js_env \<Rightarrow> fetch_result \<Rightarrow> (string \<rightharpoonup> string) \<Rightarrow> js_error option \<times> dashboard" where
  "constructor env fetched page =
     init env fetched
       \<lparr>deployments = [], charts_trend = None, charts_status = None, document = page,
        console = [], intervals = []\<rparr>"

subsection \<open>Sample data\<close>

text \<open>A record with the given time, status, commit and user, used in the worked examples.\<close>

definition sample :: "int \<Rightarrow> string \<Rightarrow> string \<Rightarrow> string \<Rightarrow> deployment" where
  "sample t st hash usr =
     \<lparr>timestamp = t, status = st, commit = hash, user = usr,
      workflow_url = ''https://github.com/festion/home-assistant-config/actions/runs/1''\<rparr>"

text \<open>A browser with a clock, a zone one hour east of UTC and plain formatting functions.\<close>

definition sampleEnv :: js_env where
  "sampleEnv =
     \<lparr>now = 1762128000000,
      localTime = (\<lambda>t. t + 3600000),
      utcOf = (\<lambda>l. l - 3600000),
      toLocaleDateString = (\<lambda>t. ''day '' @ Number_toString (t div 86400000)),
      toLocaleTimeString = (\<lambda>t. ''ms '' @ Number_toString (t mod 86400000)),
      toLocaleString = (\<lambda>t. ''at '' @ Number_toString t),
      chartLibrary = True\<rparr>"


text \<open>A page that has all eight elements the dashboard writes to.\<close>

definition samplePage :: "string \<rightharpoonup> string" where
  "samplePage =
     map_of [(''totalDeployments'', ''-''), (''successRate'', ''-''), (''lastDeployment'', ''-''),
             (''activeDeployers'', ''-''), (''lastUpdated'', ''-''),
             (''deploymentsTableBody'', ''Loading...''), (''deploymentTrendChart'', ''''),
             (''statusDistributionChart'', '''')]"

definition sampleState :: "deployment list \<Rightarrow> dashboard" where
  "sampleState ds =
     \<lparr>deployments = ds, charts_trend = None, charts_status = None, document = samplePage,
      console = [], intervals = []\<rparr>"

subsection \<open>Failures of the load\<close>

text \<open>
  The failures of the load named by the specification: the request fails, the response is
  not a success, the body is not JSON, or the document has no \<^verbatim>\<open>deployments\<close> field.
\<close>

fun load_failure :: "fetch_result \<Rightarrow> bool" where
  "load_failure NetworkFailure = True"
| "load_failure (Response False body) = True"
| "load_failure (Response True MalformedJSON) = True"
| "load_failure (Response True (Document None)) = True"
| "load_failure (Response True (Document (Some ds))) = False"

section \<open>Status distribution\<close>

lemma three_filters_le:
  assumes "\<And>x. \<not> (P x \<and> Q x)" "\<And>x. \<not> (P x \<and> R x)" "\<And>x. \<not> (Q x \<and> R x)"
  shows "length (filter P xs) + length (filter Q xs) + length (filter R xs) \<le> length xs"
proof (induction xs)
  case Nil
  show ?case by simp
next
  case (Cons x xs)
  from assms [of x] Cons.IH show ?case by (cases "P x"; cases "Q x"; cases "R x") simp_all
qed

lemma three_filters_eq:
  assumes "\<And>x. \<not> (P x \<and> Q x)" "\<And>x. \<not> (P x \<and> R x)" "\<And>x. \<not> (Q x \<and> R x)"
  shows "(length (filter P xs) + length (filter Q xs) + length (filter R xs) = length xs)
         = (\<forall>x \<in> set xs. P x \<or> Q x \<or> R x)"
proof (induction xs)
  case Nil
  show ?case by simp
next
  case (Cons x xs)
  have le: "length (filter P xs) + length (filter Q xs) + length (filter R xs) \<le> length xs"
    using assms by (rule three_filters_le)
  from assms [of x] Cons.IH le show ?case
    by (cases "P x"; cases "Q x"; cases "R x") auto
qed

text \<open>
  Claim C7. The three counts of \<^verbatim>\<open>createStatusChart\<close> are the numbers of records whose
  status is exactly \<open>success\<close>, \<open>failure\<close> and \<open>cancelled\<close>. Their sum is at most the number
  of records, and equals it exactly when every record has one of these three statuses.
\<close>

theorem statusCounts_sum:
  "(case statusCounts ds of (s, f, c) \<Rightarrow>
      s = length (filter (\<lambda>d. status d = ''success'') ds)
    \<and> f = length (filter (\<lambda>d. status d = ''failure'') ds)
    \<and> c = length (filter (\<lambda>d. status d = ''cancelled'') ds)
    \<and> s + f + c \<le> length ds
    \<and> ((s + f + c = length ds)
        = (\<forall>d \<in> set ds. status d = ''success'' \<or> status d = ''failure'' \<or> status d = ''cancelled'')))"
proof -
  let ?P = "\<lambda>d. status d = ''success''"
  let ?Q = "\<lambda>d. status d = ''failure''"
  let ?R = "\<lambda>d. status d = ''cancelled''"
  have d: "\<And>x. \<not> (?P x \<and> ?Q x)" "\<And>x. \<not> (?P x \<and> ?R x)" "\<And>x. \<not> (?Q x \<and> ?R x)"
    by simp_all
  have le: "length (filter ?P ds) + length (filter ?Q ds) + length (filter ?R ds) \<le> length ds"
    using d by (rule three_filters_le)
  have eq: "(length (filter ?P ds) + length (filter ?Q ds) + length (filter ?R ds) = length ds)
         = (\<forall>x \<in> set ds. ?P x \<or> ?Q x \<or> ?R x)"
    using d by (rule three_filters_eq)
  show ?thesis unfolding statusCounts_def prod.case using le eq by blast
qed

theorem statusCounts_sum_witness:
  "statusCounts [sample 0 ''success'' ''0123456789'' ''alice'',
                 sample 0 ''failure'' ''0123456789'' ''bob'',
                 sample 0 ''cancelled'' ''0123456789'' ''alice''] = (1, 1, 1)
   \<and> statusCounts [sample 0 ''success'' ''0123456789'' ''alice'',
                   sample 0 ''skipped'' ''0123456789'' ''bob''] = (1, 0, 0)"
  using statusCounts_sum [of "[sample 0 ''success'' ''0123456789'' ''alice'',
                 sample 0 ''failure'' ''0123456789'' ''bob'',
                 sample 0 ''cancelled'' ''0123456789'' ''alice'']"]
    statusCounts_sum [of "[sample 0 ''success'' ''0123456789'' ''alice'',
                   sample 0 ''skipped'' ''0123456789'' ''bob'']"]
  by (simp add: statusCounts_def sample_def)

section \<open>Unique deployers\<close>

lemma set_foldl_Set_add: "set (foldl Set_add acc xs) = set acc \<union> set xs"
  by (induction xs arbitrary: acc) (auto simp: Set_add_def)

lemma distinct_foldl_Set_add: "distinct acc \<Longrightarrow> distinct (foldl Set_add acc xs)"
  by (induction xs arbitrary: acc) (auto simp: Set_add_def)

lemma uniqueDeployers_card: "uniqueDeployers ds = card (user ` set ds)"
proof -
  have "distinct (new_Set (map user ds))"
    unfolding new_Set_def by (rule distinct_foldl_Set_add) simp
  then have "length (new_Set (map user ds)) = card (set (new_Set (map user ds)))"
    by (simp add: distinct_card)
  also have "set (new_Set (map user ds)) = user ` set ds"
    by (simp add: new_Set_def set_foldl_Set_add)
  finally show ?thesis by (simp add: uniqueDeployers_def Set_size_def)
qed

text \<open>
  Claim C9. The number of unique deployers computed by \<^verbatim>\<open>updateStats\<close> is the cardinality
  of the set of \<open>user\<close> values of all records, and reordering the records leaves it unchanged.
\<close>

theorem uniqueDeployers_set_card:
  "uniqueDeployers ds = card (user ` set ds)
   \<and> (\<forall>ds'. mset ds' = mset ds \<longrightarrow> uniqueDeployers ds' = uniqueDeployers ds)"
proof -
  have "uniqueDeployers ds' = uniqueDeployers ds" if "mset ds' = mset ds" for ds'
  proof -
    from that have "set ds' = set ds" by (rule mset_eq_setD)
    then show ?thesis by (simp add: uniqueDeployers_card)
  qed
  with uniqueDeployers_card [of ds] show ?thesis by blast
qed

theorem uniqueDeployers_set_card_witness:
  "mset [sample 2 ''failure'' ''0123456789'' ''bob'',
         sample 0 ''success'' ''0123456789'' ''alice'',
         sample 1 ''success'' ''0123456789'' ''alice'']
   = mset [sample 0 ''success'' ''0123456789'' ''alice'',
           sample 2 ''failure'' ''0123456789'' ''bob'',
           sample 1 ''success'' ''0123456789'' ''alice'']
   \<and> uniqueDeployers [sample 0 ''success'' ''0123456789'' ''alice'',
                       sample 2 ''failure'' ''0123456789'' ''bob'',
                       sample 1 ''success'' ''0123456789'' ''alice''] = 2
   \<and> uniqueDeployers [sample 2 ''failure'' ''0123456789'' ''bob'',
                       sample 0 ''success'' ''0123456789'' ''alice'',
                       sample 1 ''success'' ''0123456789'' ''alice''] = 2"
  using uniqueDeployers_set_card [of "[sample 0 ''success'' ''0123456789'' ''alice'',
                       sample 2 ''failure'' ''0123456789'' ''bob'',
                       sample 1 ''success'' ''0123456789'' ''alice'']"]
  by (simp add: uniqueDeployers_def new_Set_def Set_add_def Set_size_def sample_def)

section \<open>The table of recent deployments\<close>

lemma substring_prefix: "substring s 0 (int n) = take n s"
  unfolding substring_def Let_def by (cases "n \<le> length s") (simp_all add: min_def)

lemma setInnerHTML_present:
  "document s ident \<noteq> None \<Longrightarrow>
   setInnerHTML ident html s = (None, s\<lparr>document := (document s)(ident \<mapsto> html)\<rparr>)"
  by (auto simp: setInnerHTML_def)

text \<open>The row of a record, written out: the template literal with its interpolations.\<close>

lemma tableRow_eq:
  \<open>tableRow env =
     (\<lambda>d. ''\<newline>            <tr>\<newline>                <td>''
          @ toLocaleDateString env (timestamp d) @ '' '' @ toLocaleTimeString env (timestamp d)
          @ ''</td>\<newline>                <td><span class="status-badge status-'' @ status d
          @ ''">'' @ status d
          @ ''</span></td>\<newline>                <td><code class="commit-hash">''
          @ take 7 (commit d)
          @ ''</code></td>\<newline>                <td>'' @ user d
          @ ''</td>\<newline>                <td><a href="'' @ workflow_url d
          @ ''" class="workflow-link" target="_blank">View</a></td>\<newline>            </tr>\<newline>        '')\<close>
proof
  fix d
  show \<open>tableRow env d =
      ''\<newline>            <tr>\<newline>                <td>''
          @ toLocaleDateString env (timestamp d) @ '' '' @ toLocaleTimeString env (timestamp d)
          @ ''</td>\<newline>                <td><span class="status-badge status-'' @ status d
          @ ''">'' @ status d
          @ ''</span></td>\<newline>                <td><code class="commit-hash">''
          @ take 7 (commit d)
          @ ''</code></td>\<newline>                <td>'' @ user d
          @ ''</td>\<newline>                <td><a href="'' @ workflow_url d
          @ ''" class="workflow-link" target="_blank">View</a></td>\<newline>            </tr>\<newline>        ''\<close>
    using substring_prefix [of "commit d" 7]
    by (simp add: tableRow_def rowTemplate_def formatDate_def)
qed

text \<open>
  Claim C8. On a page that has the table body, \<^verbatim>\<open>updateTable\<close> writes the single placeholder
  row \<open>No deployment data available\<close> when there are no records; otherwise it writes the rows
  of the first \<open>min 20 (length ds)\<close> records, in order, each row being the markup below around
  the formatted date and time, the status (as class suffix and as text), the first seven
  characters of the commit, the user and the workflow URL.
\<close>

theorem updateTable_rows:
  assumes "document s ''deploymentsTableBody'' \<noteq> None"
  shows \<open>(deployments s = [] \<longrightarrow>
           updateTable env s =
             (None, s\<lparr>document := (document s)(''deploymentsTableBody'' \<mapsto>
                ''<tr><td colspan="5" class="loading">No deployment data available</td></tr>'')\<rparr>))
       \<and> (deployments s \<noteq> [] \<longrightarrow>
           updateTable env s =
             (None, s\<lparr>document := (document s)(''deploymentsTableBody'' \<mapsto>
                concat (map
                  (\<lambda>d. ''\<newline>            <tr>\<newline>                <td>''
                     @ toLocaleDateString env (timestamp d) @ '' ''
                     @ toLocaleTimeString env (timestamp d)
                     @ ''</td>\<newline>                <td><span class="status-badge status-''
                     @ status d @ ''">'' @ status d
                     @ ''</span></td>\<newline>                <td><code class="commit-hash">''
                     @ take 7 (commit d)
                     @ ''</code></td>\<newline>                <td>'' @ user d
                     @ ''</td>\<newline>                <td><a href="'' @ workflow_url d
                     @ ''" class="workflow-link" target="_blank">View</a></td>\<newline>            </tr>\<newline>        '')
                  (take (min 20 (length (deployments s))) (deployments s))))\<rparr>))\<close>
proof -
  have "take (min 20 (length (deployments s))) (deployments s) = take 20 (deployments s)"
    by (simp add: min_def)
  then show ?thesis
    using assms
    by (simp only: tableRow_eq [symmetric])
       (simp add: updateTable_def setInnerHTML_present noDataRow_def)
qed

theorem updateTable_rows_witness:
  \<open>document (snd (updateTable sampleEnv (sampleState []))) ''deploymentsTableBody''
     = Some ''<tr><td colspan="5" class="loading">No deployment data available</td></tr>''
   \<and> document (snd (updateTable sampleEnv (sampleState [sample 90000000 ''success'' ''0123456789'' ''alice'',
        sample 0 ''failure'' ''abcdef0123'' ''bob'']))) ''deploymentsTableBody''
     = Some (''\<newline>            <tr>''
          @ ''\<newline>                <td>day 1 ms 3600000</td>''
          @ ''\<newline>                <td><span class="status-badge status-success">success</span></td>''
          @ ''\<newline>                <td><code class="commit-hash">0123456</code></td>''
          @ ''\<newline>                <td>alice</td>''
          @ ''\<newline>                <td><a href="https://github.com/festion/home-assistant-config/actions/runs/1" class="workflow-link" target="_blank">View</a></td>''
          @ ''\<newline>            </tr>''
          @ ''\<newline>        ''
          @ ''\<newline>            <tr>''
          @ ''\<newline>                <td>day 0 ms 0</td>''
          @ ''\<newline>                <td><span class="status-badge status-failure">failure</span></td>''
          @ ''\<newline>                <td><code class="commit-hash">abcdef0</code></td>''
          @ ''\<newline>                <td>bob</td>''
          @ ''\<newline>                <td><a href="https://github.com/festion/home-assistant-config/actions/runs/1" class="workflow-link" target="_blank">View</a></td>''
          @ ''\<newline>            </tr>''
          @ ''\<newline>        '')
   \<and> document (snd (updateTable sampleEnv
        (sampleState (replicate 25 (sample 90000000 ''success'' ''0123456789'' ''alice''))))) ''deploymentsTableBody''
     = Some (concat (replicate 20
         (''\<newline>            <tr>''
          @ ''\<newline>                <td>day 1 ms 3600000</td>''
          @ ''\<newline>                <td><span class="status-badge status-success">success</span></td>''
          @ ''\<newline>                <td><code class="commit-hash">0123456</code></td>''
          @ ''\<newline>                <td>alice</td>''
          @ ''\<newline>                <td><a href="https://github.com/festion/home-assistant-config/actions/runs/1" class="workflow-link" target="_blank">View</a></td>''
          @ ''\<newline>            </tr>''
          @ ''\<newline>        '')))\<close>
proof -
  have p: "document (sampleState ds) ''deploymentsTableBody'' \<noteq> None" for ds
    by (simp add: sampleState_def samplePage_def)
  have n: "deployments (sampleState ds) = ds" for ds
    by (simp add: sampleState_def)
  have r: "toLocaleDateString sampleEnv 90000000 = ''day 1''"
    "toLocaleTimeString sampleEnv 90000000 = ''ms 3600000''"
    "toLocaleDateString sampleEnv 0 = ''day 0''"
    "toLocaleTimeString sampleEnv 0 = ''ms 0''"
    by (simp_all add: sampleEnv_def Number_toString_def showNat.simps)
  show ?thesis
    using updateTable_rows [OF p [of "[]"], of sampleEnv]
      updateTable_rows [OF p [of "[sample 90000000 ''success'' ''0123456789'' ''alice'', sample 0 ''failure'' ''abcdef0123'' ''bob'']"], of sampleEnv]
      updateTable_rows [OF p [of "replicate 25 (sample 90000000 ''success'' ''0123456789'' ''alice'')"], of sampleEnv]
    by (simp add: n sample_def r)
qed

text \<open>
  Claim C10. A commit string of fewer than seven characters is shown whole. For the record
  at a position \<open>i\<close> below 20 whose commit is that short, \<^verbatim>\<open>substring(0, 7)\<close> returns the commit
  unchanged, \<^verbatim>\<open>updateTable\<close> does not throw, and the table body holds, between the rows of the
  records before and after it, the row of this record with the whole commit inside the
  \<open>commit-hash\<close> element.
\<close>

theorem short_commit_shown_whole:
  assumes "i < length (deployments s)" and "i < 20"
    and "length (commit (deployments s ! i)) < 7"
    and "document s ''deploymentsTableBody'' \<noteq> None"
  shows \<open>substring (commit (deployments s ! i)) 0 7 = commit (deployments s ! i)
     \<and> fst (updateTable env s) = None
     \<and> document (snd (updateTable env s)) ''deploymentsTableBody''
         = Some (concat (map (tableRow env) (take i (deployments s)))
              @ ''\<newline>            <tr>\<newline>                <td>''
              @ toLocaleDateString env (timestamp (deployments s ! i)) @ '' ''
              @ toLocaleTimeString env (timestamp (deployments s ! i))
              @ ''</td>\<newline>                <td><span class="status-badge status-''
              @ status (deployments s ! i) @ ''">'' @ status (deployments s ! i)
              @ ''</span></td>\<newline>                <td><code class="commit-hash">''
              @ commit (deployments s ! i)
              @ ''</code></td>\<newline>                <td>'' @ user (deployments s ! i)
              @ ''</td>\<newline>                <td><a href="'' @ workflow_url (deployments s ! i)
              @ ''" class="workflow-link" target="_blank">View</a></td>\<newline>            </tr>\<newline>        ''
              @ concat (map (tableRow env) (drop (Suc i) (take 20 (deployments s)))))\<close>
proof -
  let ?ds = "deployments s"
  let ?d = "?ds ! i"
  from assms(3) have c: "substring (commit ?d) 0 7 = commit ?d"
    using substring_prefix [of "commit ?d" 7] by simp
  from assms(3) have t: "take 7 (commit ?d) = commit ?d" by simp
  from assms(1) have ne: "?ds \<noteq> []" by auto
  have "i < length (take 20 ?ds)" using assms(1,2) by simp
  then have "take 20 ?ds = take i (take 20 ?ds) @ take 20 ?ds ! i # drop (Suc i) (take 20 ?ds)"
    by (rule id_take_nth_drop)
  moreover have "take i (take 20 ?ds) = take i ?ds" using assms(2) by (simp add: min_def)
  moreover have "take 20 ?ds ! i = ?d" using assms(2) by simp
  ultimately have split: "take 20 ?ds = take i ?ds @ ?d # drop (Suc i) (take 20 ?ds)" by simp
  have "concat (map (tableRow env) (take 20 ?ds))
        = concat (map (tableRow env) (take i ?ds)) @ tableRow env ?d
          @ concat (map (tableRow env) (drop (Suc i) (take 20 ?ds)))"
    by (subst split) simp
  then have html: "document (snd (updateTable env s)) ''deploymentsTableBody''
      = Some (concat (map (tableRow env) (take i ?ds)) @ tableRow env ?d
          @ concat (map (tableRow env) (drop (Suc i) (take 20 ?ds))))"
    and ok: "fst (updateTable env s) = None"
    using ne assms(4) by (simp_all add: updateTable_def setInnerHTML_present)
  have row: \<open>tableRow env ?d = ''\<newline>            <tr>\<newline>                <td>''
              @ toLocaleDateString env (timestamp ?d) @ '' ''
              @ toLocaleTimeString env (timestamp ?d)
              @ ''</td>\<newline>                <td><span class="status-badge status-''
              @ status ?d @ ''">'' @ status ?d
              @ ''</span></td>\<newline>                <td><code class="commit-hash">''
              @ commit ?d
              @ ''</code></td>\<newline>                <td>'' @ user ?d
              @ ''</td>\<newline>                <td><a href="'' @ workflow_url ?d
              @ ''" class="workflow-link" target="_blank">View</a></td>\<newline>            </tr>\<newline>        ''\<close>
    using t by (simp add: tableRow_eq)
  from c ok html row show ?thesis by simp
qed

theorem short_commit_shown_whole_witness:
  \<open>substring ''abc12'' 0 7 = ''abc12''
   \<and> fst (updateTable sampleEnv (sampleState [sample 0 ''success'' ''abc12'' ''alice''])) = None
   \<and> document (snd (updateTable sampleEnv (sampleState [sample 0 ''success'' ''abc12'' ''alice''])))
        ''deploymentsTableBody''
      = Some (''\<newline>            <tr>''
          @ ''\<newline>                <td>day 0 ms 0</td>''
          @ ''\<newline>                <td><span class="status-badge status-success">success</span></td>''
          @ ''\<newline>                <td><code class="commit-hash">abc12</code></td>''
          @ ''\<newline>                <td>alice</td>''
          @ ''\<newline>                <td><a href="https://github.com/festion/home-assistant-config/actions/runs/1" class="workflow-link" target="_blank">View</a></td>''
          @ ''\<newline>            </tr>''
          @ ''\<newline>        '')\<close>
proof -
  let ?s = "sampleState [sample 0 ''success'' ''abc12'' ''alice'']"
  have h1: "0 < length (deployments ?s)" and h2: "(0::nat) < 20"
    by (simp_all add: sampleState_def)
  have h3: "length (commit (deployments ?s ! 0)) < 7"
    by (simp add: sampleState_def sample_def)
  have h4: "document ?s ''deploymentsTableBody'' \<noteq> None"
    by (simp add: sampleState_def samplePage_def)
  have r: "toLocaleDateString sampleEnv 0 = ''day 0''" "toLocaleTimeString sampleEnv 0 = ''ms 0''"
    by (simp_all add: sampleEnv_def Number_toString_def showNat.simps)
  have n: "deployments (sampleState ds) = ds" for ds
    by (simp add: sampleState_def)
  show ?thesis
    using short_commit_shown_whole [OF h1 h2 h3 h4, of sampleEnv]
    by (simp add: n sample_def r)
qed

section \<open>The age of the last deployment\<close>

lemma setTextContent_present:
  "document s ident \<noteq> None \<Longrightarrow>
   setTextContent ident txt s = (None, s\<lparr>document := (document s)(ident \<mapsto> txt)\<rparr>)"
  by (auto simp: setTextContent_def)

lemma updateStats_present:
  assumes "document s ''totalDeployments'' \<noteq> None" "document s ''successRate'' \<noteq> None"
    "document s ''lastDeployment'' \<noteq> None" "document s ''activeDeployers'' \<noteq> None"
  shows "updateStats env s =
    (None, s\<lparr>document := (document s)
       (''totalDeployments'' \<mapsto> showNat (totalDeployments (deployments s)),
        ''successRate'' \<mapsto> Number_toString (successRate (deployments s)) @ ''%'',
        ''lastDeployment'' \<mapsto> lastDeployment env (deployments s),
        ''activeDeployers'' \<mapsto> showNat (uniqueDeployers (deployments s)))\<rparr>)"
  using assms by (simp add: updateStats_def andThen_def setTextContent_present Let_def)

lemma hours_div_24: "(e::int) div (1000 * 60 * 60) div 24 = e div 86400000"
  by (simp add: div_mult2_eq [symmetric])

text \<open>
  Claim C5. The last-deployment text is \<open>Never\<close> for an empty list. Otherwise it comes from
  the time elapsed since the timestamp of the first record: under one hour \<open>Less than an
  hour ago\<close>; from one hour to under 24 hours \<open>N hour(s) ago\<close>, \<open>N\<close> the whole hours, with an
  \<open>s\<close> exactly when \<open>N > 1\<close>; from 24 hours on \<open>N day(s) ago\<close> with \<open>N\<close> the whole hours divided
  by 24 and rounded down (the whole days), with an \<open>s\<close> exactly when \<open>N > 1\<close>. On a page with
  the four statistics elements \<^verbatim>\<open>updateStats\<close> writes this text to \<open>lastDeployment\<close>.
\<close>

theorem lastDeployment_text:
  "lastDeployment env [] = ''Never''
   \<and> (now env - timestamp d < 3600000 \<longrightarrow>
        lastDeployment env (d # ds) = ''Less than an hour ago'')
   \<and> (3600000 \<le> now env - timestamp d \<and> now env - timestamp d < 86400000 \<longrightarrow>
        lastDeployment env (d # ds) =
          Number_toString ((now env - timestamp d) div 3600000) @ '' hour''
          @ (if (now env - timestamp d) div 3600000 > 1 then ''s'' else '''') @ '' ago'')
   \<and> (86400000 \<le> now env - timestamp d \<longrightarrow>
        lastDeployment env (d # ds) =
          Number_toString ((now env - timestamp d) div 3600000 div 24) @ '' day''
          @ (if (now env - timestamp d) div 3600000 div 24 > 1 then ''s'' else '''') @ '' ago''
        \<and> (now env - timestamp d) div 3600000 div 24 = (now env - timestamp d) div 86400000)
   \<and> (document s ''totalDeployments'' \<noteq> None \<and> document s ''successRate'' \<noteq> None
        \<and> document s ''lastDeployment'' \<noteq> None \<and> document s ''activeDeployers'' \<noteq> None \<longrightarrow>
        fst (updateStats env s) = None
        \<and> document (snd (updateStats env s)) ''lastDeployment''
            = Some (lastDeployment env (deployments s)))"
proof -
  let ?e = "now env - timestamp d"
  have c: "?e div 3600000 div 24 = ?e div 86400000"
    using hours_div_24 [of ?e] by simp
  have 1: "lastDeployment env [] = ''Never''" by (simp add: lastDeployment_def)
  have 2: "?e < 3600000 \<longrightarrow> lastDeployment env (d # ds) = ''Less than an hour ago''"
  proof
    assume "?e < 3600000"
    then have "?e div 3600000 < 1" by linarith
    then show "lastDeployment env (d # ds) = ''Less than an hour ago''"
      by (simp add: lastDeployment_def formatTimeAgo_def)
  qed
  have 3: "3600000 \<le> ?e \<and> ?e < 86400000 \<longrightarrow>
        lastDeployment env (d # ds) =
          Number_toString (?e div 3600000) @ '' hour''
          @ (if ?e div 3600000 > 1 then ''s'' else '''') @ '' ago''"
  proof
    assume "3600000 \<le> ?e \<and> ?e < 86400000"
    then have "\<not> ?e div 3600000 < 1" and "?e div 3600000 < 24" by linarith+
    then show "lastDeployment env (d # ds) =
          Number_toString (?e div 3600000) @ '' hour''
          @ (if ?e div 3600000 > 1 then ''s'' else '''') @ '' ago''"
      by (simp add: lastDeployment_def formatTimeAgo_def Let_def)
  qed
  have 4: "86400000 \<le> ?e \<longrightarrow>
        lastDeployment env (d # ds) =
          Number_toString (?e div 3600000 div 24) @ '' day''
          @ (if ?e div 3600000 div 24 > 1 then ''s'' else '''') @ '' ago''
        \<and> ?e div 3600000 div 24 = ?e div 86400000"
  proof
    assume "86400000 \<le> ?e"
    then have "\<not> ?e div 3600000 < 1" and "\<not> ?e div 3600000 < 24" by linarith+
    then have "lastDeployment env (d # ds) =
          Number_toString (?e div 3600000 div 24) @ '' day''
          @ (if ?e div 3600000 div 24 > 1 then ''s'' else '''') @ '' ago''"
      by (simp add: lastDeployment_def formatTimeAgo_def Let_def)
    with c show "lastDeployment env (d # ds) =
          Number_toString (?e div 3600000 div 24) @ '' day''
          @ (if ?e div 3600000 div 24 > 1 then ''s'' else '''') @ '' ago''
        \<and> ?e div 3600000 div 24 = ?e div 86400000" by blast
  qed
  have 5: "document s ''totalDeployments'' \<noteq> None \<and> document s ''successRate'' \<noteq> None
        \<and> document s ''lastDeployment'' \<noteq> None \<and> document s ''activeDeployers'' \<noteq> None \<longrightarrow>
        fst (updateStats env s) = None
        \<and> document (snd (updateStats env s)) ''lastDeployment''
            = Some (lastDeployment env (deployments s))"
    by (simp add: updateStats_present)
  from 1 2 3 4 5 show ?thesis by blast
qed

theorem lastDeployment_text_witness:
  "lastDeployment sampleEnv [] = ''Never''
   \<and> lastDeployment sampleEnv [sample (1762128000000 - 1800000) ''success'' ''0123456789'' ''alice'']
       = ''Less than an hour ago''
   \<and> lastDeployment sampleEnv [sample (1762128000000 - 3600000) ''success'' ''0123456789'' ''alice'']
       = ''1 hour ago''
   \<and> lastDeployment sampleEnv [sample (1762128000000 - 18000000) ''success'' ''0123456789'' ''alice'']
       = ''5 hours ago''
   \<and> lastDeployment sampleEnv [sample (1762128000000 - 90000000) ''success'' ''0123456789'' ''alice'']
       = ''1 day ago''
   \<and> lastDeployment sampleEnv [sample (1762128000000 - 1000000000) ''success'' ''0123456789'' ''alice'']
       = ''11 days ago''
   \<and> document (snd (updateStats sampleEnv (sampleState []))) ''lastDeployment'' = Some ''Never''"
  using lastDeployment_text [of sampleEnv "sample (1762128000000 - 1800000) ''success'' ''0123456789'' ''alice''" "[]" "sampleState []"]
    lastDeployment_text [of sampleEnv "sample (1762128000000 - 3600000) ''success'' ''0123456789'' ''alice''" "[]" "sampleState []"]
    lastDeployment_text [of sampleEnv "sample (1762128000000 - 18000000) ''success'' ''0123456789'' ''alice''" "[]" "sampleState []"]
    lastDeployment_text [of sampleEnv "sample (1762128000000 - 90000000) ''success'' ''0123456789'' ''alice''" "[]" "sampleState []"]
    lastDeployment_text [of sampleEnv "sample (1762128000000 - 1000000000) ''success'' ''0123456789'' ''alice''" "[]" "sampleState []"]
  by (simp add: sampleEnv_def sample_def sampleState_def samplePage_def Number_toString_def showNat.simps)

section \<open>Loading the snapshot\<close>

lemma loadDeployments_result:
  "loadDeployments fetched s =
     (case loadDeployments_try fetched of
        Inr ds \<Rightarrow> (None, s\<lparr>deployments := ds\<rparr>)
      | Inl e \<Rightarrow> (None, s\<lparr>console := console s @ [''No deployment data found, using empty dataset''],
                          deployments := []\<rparr>))"
  by (simp add: loadDeployments_def andThen_def console_warn_def split: sum.splits)

lemma load_failure_try:
  "load_failure fetched \<Longrightarrow> loadDeployments_try fetched = Inr [] \<or> (\<exists>e. loadDeployments_try fetched = Inl e)"
  by (induction fetched rule: load_failure.induct) simp_all

text \<open>
  Claim C4. Whenever the load fails (the request fails, the response is not a success, the
  body is not JSON, or the \<^verbatim>\<open>deployments\<close> field is absent), \<^verbatim>\<open>loadDeployments\<close> does not throw,
  the list of records becomes empty whatever it was before, and the page and the charts are
  left as they were, so no error row is written.
\<close>

theorem loadDeployments_failure_empty:
  assumes "load_failure fetched"
  shows "fst (loadDeployments fetched s) = None
     \<and> deployments (snd (loadDeployments fetched s)) = []
     \<and> document (snd (loadDeployments fetched s)) = document s
     \<and> charts_trend (snd (loadDeployments fetched s)) = charts_trend s
     \<and> charts_status (snd (loadDeployments fetched s)) = charts_status s"
  using load_failure_try [OF assms] by (auto simp: loadDeployments_result)

theorem loadDeployments_failure_empty_witness:
  "load_failure (Response False MalformedJSON)
   \<and> fst (loadDeployments (Response False MalformedJSON)
            (sampleState [sample 0 ''success'' ''0123456789'' ''alice''])) = None
   \<and> deployments (snd (loadDeployments (Response False MalformedJSON)
            (sampleState [sample 0 ''success'' ''0123456789'' ''alice'']))) = []
   \<and> document (snd (loadDeployments (Response False MalformedJSON)
            (sampleState [sample 0 ''success'' ''0123456789'' ''alice'']))) ''deploymentsTableBody''
       = Some ''Loading...''"
proof -
  have h: "load_failure (Response False MalformedJSON)" by simp
  show ?thesis
    using loadDeployments_failure_empty [OF h, of "sampleState [sample 0 ''success'' ''0123456789'' ''alice'']"] h
    by (simp add: sampleState_def samplePage_def)
qed

section \<open>Failures during init\<close>

lemma dom_setTextContent [simp]:
  "dom (document (snd (setTextContent ident txt s))) = dom (document s)"
  by (auto simp: setTextContent_def split: option.splits)

lemma dom_setInnerHTML [simp]:
  "dom (document (snd (setInnerHTML ident html s))) = dom (document s)"
  by (auto simp: setInnerHTML_def split: option.splits)

lemma dom_andThen:
  assumes "\<And>s. dom (document (snd (f s))) = dom (document s)"
    and "\<And>s. dom (document (snd (g s))) = dom (document s)"
  shows "dom (document (snd (andThen f g s))) = dom (document s)"
proof (cases "f s")
  case (Pair r s')
  from assms(1) [of s] Pair have "dom (document s') = dom (document s)" by simp
  with assms(2) [of s'] Pair show ?thesis
    by (cases r) (simp_all add: andThen_def)
qed

lemma dom_loadDeployments [simp]:
  "dom (document (snd (loadDeployments fetched s))) = dom (document s)"
  by (simp add: loadDeployments_def andThen_def console_warn_def split: sum.splits)

lemma dom_updateStats [simp]: "dom (document (snd (updateStats env s))) = dom (document s)"
  unfolding updateStats_def Let_def by (intro dom_andThen dom_setTextContent)

lemma dom_getContext [simp]: "dom (document (snd (getContext ident s))) = dom (document s)"
  by (simp add: getContext_def split: option.splits)

lemma dom_createTrendChart [simp]:
  "dom (document (snd (createTrendChart env s))) = dom (document s)"
  unfolding createTrendChart_def
  by (rule dom_andThen) (simp_all split: sum.splits)

lemma dom_createStatusChart [simp]:
  "dom (document (snd (createStatusChart env s))) = dom (document s)"
  unfolding createStatusChart_def
  by (rule dom_andThen) (simp_all split: sum.splits prod.splits)

lemma dom_createCharts [simp]: "dom (document (snd (createCharts env s))) = dom (document s)"
  unfolding createCharts_def by (rule dom_andThen) simp_all

lemma dom_updateTable [simp]: "dom (document (snd (updateTable env s))) = dom (document s)"
  by (simp add: updateTable_def)

lemma dom_updateLastUpdated [simp]:
  "dom (document (snd (updateLastUpdated env s))) = dom (document s)"
  by (simp add: updateLastUpdated_def)

lemma dom_setInterval [simp]: "dom (document (snd (setInterval p s))) = dom (document s)"
  by (simp add: setInterval_def)

lemma dom_init_try: "dom (document (snd (init_try env fetched s))) = dom (document s)"
  unfolding init_try_def by (intro dom_andThen) simp_all

text \<open>
  Claim C3, as the code has it. When a statement of the \<^verbatim>\<open>try\<close> block of \<^verbatim>\<open>init\<close> throws and
  the page has the table body, \<^verbatim>\<open>init\<close> itself does not throw, and the table body becomes the
  single row \<open>Error: Failed to load deployment data\<close>: the text after the prefix is this
  fixed literal, whatever the message of the exception.
\<close>

theorem init_failure_row:
  assumes "fst (init_try env fetched s) = Some e"
    and "document s ''deploymentsTableBody'' \<noteq> None"
  shows \<open>fst (init env fetched s) = None
     \<and> document (snd (init env fetched s)) ''deploymentsTableBody''
         = Some ''<tr><td colspan="5" class="loading">Error: Failed to load deployment data</td></tr>''\<close>
proof -
  obtain s' where r: "init_try env fetched s = (Some e, s')"
    using assms(1) by (cases "init_try env fetched s") simp
  have "dom (document s') = dom (document s)"
    using dom_init_try [of env fetched s] r by simp
  with assms(2) have "document s' ''deploymentsTableBody'' \<noteq> None"
    by (metis domIff)
  then obtain old where "document s' ''deploymentsTableBody'' = Some old" by blast
  with r show ?thesis
    by (simp add: init_def tryCatch_def andThen_def console_error_def showError_def
        setInnerHTML_def)
qed

theorem init_failure_row_witness:
  \<open>fst (init_try (sampleEnv\<lparr>chartLibrary := False\<rparr>)
          (Response True (Document (Some [sample 0 ''success'' ''0123456789'' ''alice''])))
          (sampleState []))
     = Some (ReferenceError ''Chart is not defined'')
   \<and> fst (init (sampleEnv\<lparr>chartLibrary := False\<rparr>)
          (Response True (Document (Some [sample 0 ''success'' ''0123456789'' ''alice''])))
          (sampleState [])) = None
   \<and> document (snd (init (sampleEnv\<lparr>chartLibrary := False\<rparr>)
          (Response True (Document (Some [sample 0 ''success'' ''0123456789'' ''alice''])))
          (sampleState []))) ''deploymentsTableBody''
       = Some ''<tr><td colspan="5" class="loading">Error: Failed to load deployment data</td></tr>''\<close>
proof -
  let ?env = "sampleEnv\<lparr>chartLibrary := False\<rparr>"
  let ?f = "Response True (Document (Some [sample 0 ''success'' ''0123456789'' ''alice'']))"
  have p: "document (sampleState []) ''deploymentsTableBody'' \<noteq> None"
    by (simp add: sampleState_def samplePage_def)
  have t: "fst (init_try ?env ?f (sampleState [])) = Some (ReferenceError ''Chart is not defined'')"
    by (simp add: init_try_def andThen_def loadDeployments_def updateStats_def Let_def
        setTextContent_def createCharts_def createTrendChart_def getContext_def newChart_def
        sampleState_def samplePage_def sampleEnv_def)
  show ?thesis
    using init_failure_row [OF t p] t by simp
qed

text \<open>
  Claim C3, as the specification words it, fails: with the charting library missing the
  exception's message is \<open>Chart is not defined\<close>, and the row does not show it.
\<close>

theorem init_failure_message_counterexample:
  \<open>fst (init_try (sampleEnv\<lparr>chartLibrary := False\<rparr>)
          (Response True (Document (Some [sample 0 ''success'' ''0123456789'' ''alice''])))
          (sampleState []))
     = Some (ReferenceError ''Chart is not defined'')
   \<and> document (snd (init (sampleEnv\<lparr>chartLibrary := False\<rparr>)
          (Response True (Document (Some [sample 0 ''success'' ''0123456789'' ''alice''])))
          (sampleState []))) ''deploymentsTableBody''
       \<noteq> Some (''<tr><td colspan="5" class="loading">Error: ''
                @ message (ReferenceError ''Chart is not defined'') @ ''</td></tr>'')\<close>
proof -
  let ?env = "sampleEnv\<lparr>chartLibrary := False\<rparr>"
  let ?f = "Response True (Document (Some [sample 0 ''success'' ''0123456789'' ''alice'']))"
  have t: "init_try ?env ?f (sampleState []) =
     (Some (ReferenceError ''Chart is not defined''),
      snd (updateStats ?env (snd (loadDeployments ?f (sampleState [])))))"
    by (simp add: init_try_def andThen_def loadDeployments_def updateStats_def Let_def
        setTextContent_def createCharts_def createTrendChart_def getContext_def newChart_def
        sampleState_def samplePage_def sampleEnv_def)
  have d: "document (snd (updateStats ?env (snd (loadDeployments ?f (sampleState [])))))
             ''deploymentsTableBody'' = Some ''Loading...''"
    by (simp add: loadDeployments_def updateStats_def Let_def andThen_def
        setTextContent_def sampleState_def samplePage_def)
  show ?thesis
    using t d
    by (simp add: init_def tryCatch_def andThen_def console_error_def showError_def
        setInnerHTML_def)
qed

section \<open>The trend series\<close>





















section \<open>The success rate\<close>

lemma roundTiesToEven_le_ceiling: "roundTiesToEven x \<le> \<lceil>x\<rceil>"
proof -
  let ?n = "\<lfloor>x\<rfloor>"
  have "?n \<le> \<lceil>x\<rceil>" by (rule floor_le_ceiling)
  moreover have "?n + 1 \<le> \<lceil>x\<rceil>" if "\<not> x - of_int ?n < 1 / 2"
  proof -
    from that have "of_int ?n < x" by simp
    then have "?n < \<lceil>x\<rceil>" by (simp add: less_ceiling_iff)
    then show ?thesis by simp
  qed
  ultimately show ?thesis
    by (auto simp: roundTiesToEven_def Let_def)
qed

lemma roundTiesToEven_nonneg: "0 \<le> x \<Longrightarrow> 0 \<le> roundTiesToEven x"
  by (auto simp: roundTiesToEven_def Let_def)

lemma ilog2_small: "q \<le> 100 \<Longrightarrow> ilog2 q \<le> 52"
proof (cases "1 \<le> q")
  case True
  assume "q \<le> 100"
  then have "\<lfloor>q\<rfloor> \<le> 100" by (simp add: floor_le_iff)
  then have "\<lfloor>q\<rfloor> < 2 ^ nat 53" by simp
  then have "bitlen \<lfloor>q\<rfloor> \<le> 53" by (simp add: bitlen_le_iff_power)
  with True show ?thesis by (simp add: ilog2_def)
next
  case False
  then show ?thesis using bitlen_nonneg [of "\<lceil>1 / q\<rceil> - 1"] by (simp add: ilog2_def)
qed

lemma ieee_round_nonneg: "0 \<le> ieee_round q"
proof (cases "q \<le> 0")
  case True
  then show ?thesis by (simp add: ieee_round_def)
next
  case False
  let ?ulp = "(2::rat) powi (ilog2 q - 52)"
  have u: "0 < ?ulp" by simp
  with False have "0 \<le> q / ?ulp" by simp
  then have "0 \<le> roundTiesToEven (q / ?ulp)" by (rule roundTiesToEven_nonneg)
  with u False show ?thesis by (simp add: ieee_round_def Let_def)
qed

lemma ieee_round_le_int:
  assumes "q \<le> of_int B" and "0 \<le> B" and "ilog2 q \<le> 52"
  shows "ieee_round q \<le> of_int B"
proof (cases "q \<le> 0")
  case True
  with assms(2) show ?thesis by (simp add: ieee_round_def)
next
  case False
  let ?k = "nat (52 - ilog2 q)"
  let ?P = "(2::rat) ^ ?k"
  have ulp: "(2::rat) powi (ilog2 q - 52) = inverse ?P"
    using assms(3) by (cases "ilog2 q = 52") (simp_all add: power_int_def power_one_over inverse_eq_divide)
  have P: "0 < ?P" by simp
  have "q * ?P \<le> of_int B * ?P" using assms(1) P by simp
  also have "\<dots> = of_int (B * 2 ^ ?k)" by simp
  finally have "\<lceil>q * ?P\<rceil> \<le> B * 2 ^ ?k" by (simp only: ceiling_le_iff)
  with roundTiesToEven_le_ceiling [of "q * ?P"]
  have "roundTiesToEven (q * ?P) \<le> B * 2 ^ ?k" by linarith
  then have "(of_int (roundTiesToEven (q * ?P)) :: rat) \<le> of_int (B * 2 ^ ?k)"
    by (simp only: of_int_le_iff)
  then have "(of_int (roundTiesToEven (q * ?P)) :: rat) \<le> of_int B * ?P" by simp
  then have "of_int (roundTiesToEven (q * ?P)) / ?P \<le> (of_int B :: rat)"
    using P by (simp add: pos_divide_le_eq)
  moreover have "ieee_round q = of_int (roundTiesToEven (q * ?P)) / ?P"
    using False by (simp add: ieee_round_def Let_def ulp divide_inverse)
  ultimately show ?thesis by simp
qed

lemma successRate_empty: "successRate [] = 0"
  by (simp add: successRate_def totalDeployments_def)

lemma successRate_range: "0 \<le> successRate ds \<and> successRate ds \<le> 100"
proof (cases "totalDeployments ds > 0")
  case False
  then show ?thesis by (simp add: successRate_def)
next
  case True
  let ?s = "successfulDeployments ds"
  let ?t = "totalDeployments ds"
  let ?x = "js_div (of_nat ?s) (of_nat ?t)"
  let ?y = "js_mul ?x 100"
  have "?s \<le> ?t" by (simp add: successfulDeployments_def totalDeployments_def)
  with True have q: "(of_nat ?s :: rat) / of_nat ?t \<le> of_int 1" by simp
  then have "ilog2 (of_nat ?s / of_nat ?t) \<le> 52" by (intro ilog2_small) simp
  with q have x1: "?x \<le> 1"
    unfolding js_div_def using ieee_round_le_int [of "of_nat ?s / of_nat ?t" 1] by simp
  then have "?x * 100 \<le> of_int 100" by simp
  moreover from this have "ilog2 (?x * 100) \<le> 52" by (intro ilog2_small) simp
  ultimately have "?y \<le> 100"
    unfolding js_mul_def using ieee_round_le_int [of "?x * 100" 100] by simp
  moreover have "0 \<le> ?y" unfolding js_mul_def by (rule ieee_round_nonneg)
  ultimately have "0 \<le> Math_round ?y \<and> Math_round ?y \<le> 100"
    unfolding Math_round_def by (simp add: floor_le_iff le_floor_iff)
  with True show ?thesis by (simp add: successRate_def)
qed

text \<open>
  Claim C1 fails on the code at a tie. With 23 successful records out of 40 the exact
  percentage is 57.5, which rounds to 58. The source divides first and multiplies by 100
  afterwards, both in double precision: the product is just below 57.5 and
  \<^verbatim>\<open>Math.round\<close> gives 57. The rest of the claim holds: the rate is 0 for an empty list
  (\<open>successRate_empty\<close>) and always lies between 0 and 100 (\<open>successRate_range\<close>).
\<close>

theorem successRate_tie_rounds_down:
  "totalDeployments (replicate 23 (sample 0 ''success'' ''0123456789'' ''alice'')
                     @ replicate 17 (sample 0 ''failure'' ''0123456789'' ''alice'')) = 40
   \<and> successfulDeployments (replicate 23 (sample 0 ''success'' ''0123456789'' ''alice'')
                     @ replicate 17 (sample 0 ''failure'' ''0123456789'' ''alice'')) = 23
   \<and> js_mul (js_div 23 40) 100 < 100 * 23 / 40
   \<and> successRate (replicate 23 (sample 0 ''success'' ''0123456789'' ''alice'')
                     @ replicate 17 (sample 0 ''failure'' ''0123456789'' ''alice'')) = 57
   \<and> Math_round (100 * 23 / 40) = 58"
proof -
  let ?ds = "replicate 23 (sample 0 ''success'' ''0123456789'' ''alice'')
             @ replicate 17 (sample 0 ''failure'' ''0123456789'' ''alice'')"
  have t: "totalDeployments ?ds = 40" by (simp add: totalDeployments_def)
  have s: "successfulDeployments ?ds = 23" by (simp add: successfulDeployments_def sample_def)
  have p: "js_mul (js_div 23 40) 100 < 100 * 23 / 40" by code_simp
  have r: "Math_round (js_mul (js_div 23 40) 100) = 57" by code_simp
  have e: "Math_round (100 * 23 / 40) = 58" by code_simp
  from t s r have "successRate ?ds = 57" by (simp add: successRate_def)
  with t s p e show ?thesis by blast
qed

end
